theory Spec2Isabelle
  imports Main
begin

section \<open>Python values, exceptions and the HTTP response\<close>

text \<open>
  The exceptions of the interpreter and of its standard library that the code of
  \<^verbatim>\<open>trakt/errors.py\<close> can run into. A raise is the left injection of a sum.
\<close>

datatype exn =
    AttributeError
  | KeyError string
  | TypeError
  | ValueError
  | JSONDecodeError
  | RecursionError

text \<open>
  A Python float is never computed with here; it is kept as the value it denotes
  (\<open>m * 2 ^ e\<close>), an infinity with its sign, or not-a-number.
\<close>

datatype py_float = Finite int int | Infinity bool | NaN

text \<open>
  The objects a JSON decoder builds: \<^verbatim>\<open>None\<close>, booleans, unbounded integers,
  floats, strings, lists, and dictionaries with string keys (in insertion order).
\<close>

datatype py_value =
    PyNone
  | PyBool bool
  | PyInt int
  | PyFloat py_float
  | PyStr string
  | PyList "py_value list"
  | PyDict "(string \<times> py_value) list"

text \<open>
  The response object handed to an exception. The code reads two things of it: the
  header mapping, through \<^verbatim>\<open>headers.get(name, default)\<close>, and the outcome of the
  method \<^verbatim>\<open>json()\<close>, which returns the decoded body or raises. Header names and
  values are strings of 8-bit characters, as the HTTP library decodes them (Latin-1).
\<close>

record Response =
  status_code :: int
  headers :: "string \<rightharpoonup> string"
  json :: "exn + py_value"

text \<open>\<^verbatim>\<open>obj[key]\<close> with a string key: only a dictionary can be subscripted so.\<close>

fun getitem :: "py_value \<Rightarrow> string \<Rightarrow> exn + py_value" where
  "getitem (PyDict kvs) k = (case map_of kvs k of None \<Rightarrow> Inl (KeyError k) | Some v \<Rightarrow> Inr v)"
| "getitem _ k = Inl TypeError"

section \<open>The builtin \<open>int\<close> on a string\<close>

text \<open>
  \<^verbatim>\<open>int(s)\<close> strips white space on both sides, takes an optional sign, and then wants
  decimal digits, where single underscores may stand between two digits. Anything else
  raises \<^verbatim>\<open>ValueError\<close>. Among the 256 characters of a header value the white space
  is \<open>0x09\<close> to \<open>0x0D\<close>, the blank, \<open>0x85\<close> and \<open>0xA0\<close>, and the digits are \<open>0\<close> to \<open>9\<close>.
\<close>

definition is_space :: "char \<Rightarrow> bool" where
  "is_space c \<longleftrightarrow>
     List.member [CHR 0x09, CHR 0x0A, CHR 0x0B, CHR 0x0C, CHR 0x0D, CHR 0x20, CHR 0x85, CHR 0xA0] c"

definition strip :: "string \<Rightarrow> string" where
  "strip s = rev (dropWhile is_space (rev (dropWhile is_space s)))"

definition digit_val :: "char \<Rightarrow> nat option" where
  "digit_val c =
     (let n = (of_char c :: nat) in if 48 \<le> n \<and> n \<le> 57 then Some (n - 48) else None)"

text \<open>
  \<open>scan acc n cs\<close> runs after a digit: \<open>acc\<close> is the value read so far, \<open>n\<close> the number
  of digits read. It returns the value and the number of digits of the whole literal.
\<close>

fun scan :: "nat \<Rightarrow> nat \<Rightarrow> string \<Rightarrow> (nat \<times> nat) option" where
  "scan acc n [] = Some (acc, n)"
| "scan acc n (c # cs) =
     (if c = CHR ''_'' then
        (case cs of
           [] \<Rightarrow> None
         | d # ds \<Rightarrow>
             (case digit_val d of
                None \<Rightarrow> None
              | Some v \<Rightarrow> scan (10 * acc + v) (Suc n) ds))
      else
        (case digit_val c of
           None \<Rightarrow> None
         | Some v \<Rightarrow> scan (10 * acc + v) (Suc n) cs))"

definition int_literal :: "string \<Rightarrow> (nat \<times> nat) option" where
  "int_literal s =
     (case s of
        [] \<Rightarrow> None
      | c # cs \<Rightarrow> (case digit_val c of None \<Rightarrow> None | Some v \<Rightarrow> scan v 1 cs))"

text \<open>
  \<open>lim\<close> is the interpreter's limit on the digits of a decimal string
  (\<^verbatim>\<open>sys.get_int_max_str_digits()\<close>, 4300 unless configured, 0 for no limit); it is
  checked only for literals of more than 640 digits.
\<close>

definition py_int :: "nat \<Rightarrow> string \<Rightarrow> exn + int" where
  "py_int lim s =
     (let t = strip s;
          neg = (case t of [] \<Rightarrow> False | c # _ \<Rightarrow> c = CHR ''-'');
          body = (case t of [] \<Rightarrow> [] | c # cs \<Rightarrow> if c = CHR ''-'' \<or> c = CHR ''+'' then cs else t)
      in case int_literal body of
           None \<Rightarrow> Inl ValueError
         | Some (v, n) \<Rightarrow>
             if 640 < n \<and> 0 < lim \<and> lim < n then Inl ValueError
             else Inr (if neg then - int v else int v))"

text \<open>
  The claim's "integer value" of a string of decimal digits, read left to right.
\<close>

definition decimal_value :: "string \<Rightarrow> nat" where
  "decimal_value s = foldl (\<lambda>a c. 10 * a + (of_char c - 48)) 0 s"

text \<open>
  What the claims call a decimal integer string, written as a grammar and not as the
  scanner above: after stripping white space and one leading sign, one or more decimal
  digits, where single underscores may stand between two digits. \<open>digits_of\<close> are its
  digits, \<open>integer_value\<close> the integer they denote with the sign, and \<open>within_limit\<close>
  says that the interpreter's limit on the number of digits lets the conversion through.
  \<open>tail_ok\<close> is the same grammar for what may follow a digit.
\<close>

definition is_dec :: "char \<Rightarrow> bool" where
  "is_dec c \<longleftrightarrow> digit_val c \<noteq> None"

fun no_adjacent_underscores :: "string \<Rightarrow> bool" where
  "no_adjacent_underscores (a # b # cs) =
     (\<not> (a = CHR ''_'' \<and> b = CHR ''_'') \<and> no_adjacent_underscores (b # cs))"
| "no_adjacent_underscores _ = True"

definition digit_groups :: "string \<Rightarrow> bool" where
  "digit_groups b \<longleftrightarrow>
     b \<noteq> [] \<and> list_all (\<lambda>c. is_dec c \<or> c = CHR ''_'') b
     \<and> is_dec (hd b) \<and> is_dec (last b) \<and> no_adjacent_underscores b"

definition unsigned :: "string \<Rightarrow> string" where
  "unsigned s =
     (case strip s of [] \<Rightarrow> [] | c # cs \<Rightarrow> if c = CHR ''-'' \<or> c = CHR ''+'' then cs else strip s)"

definition negative :: "string \<Rightarrow> bool" where
  "negative s = (case strip s of [] \<Rightarrow> False | c # _ \<Rightarrow> c = CHR ''-'')"

definition digits_of :: "string \<Rightarrow> string" where
  "digits_of s = filter is_dec (unsigned s)"

definition decimal_integer_string :: "string \<Rightarrow> bool" where
  "decimal_integer_string s \<longleftrightarrow> digit_groups (unsigned s)"

definition integer_value :: "string \<Rightarrow> int" where
  "integer_value s =
     (if negative s then - int (decimal_value (digits_of s)) else int (decimal_value (digits_of s)))"

definition within_limit :: "nat \<Rightarrow> string \<Rightarrow> bool" where
  "within_limit lim s \<longleftrightarrow> \<not> (640 < length (digits_of s) \<and> 0 < lim \<and> lim < length (digits_of s))"

definition tail_ok :: "string \<Rightarrow> bool" where
  "tail_ok cs \<longleftrightarrow>
     list_all (\<lambda>c. is_dec c \<or> c = CHR ''_'') cs \<and> (cs = [] \<or> is_dec (last cs))
     \<and> no_adjacent_underscores cs"

section \<open>The JSON decoder\<close>





section \<open>The exception classes\<close>

datatype cls =
    TraktException
  | BadResponseException
  | BadRequestException
  | OAuthException
  | OAuthRefreshException
  | ForbiddenException
  | NotFoundException
  | MethodNotAllowedException
  | ConflictException
  | ProcessException
  | LockedUserAccountException
  | RateLimitException
  | AccountLimitExceeded
  | TraktInternalException
  | TraktBadGateway
  | TraktUnavailable

text \<open>The method resolution order of each class, up to \<open>TraktException\<close>.\<close>

fun mro :: "cls \<Rightarrow> cls list" where
  "mro TraktException = [TraktException]"
| "mro OAuthRefreshException = [OAuthRefreshException, OAuthException, TraktException]"
| "mro AccountLimitExceeded = [AccountLimitExceeded, RateLimitException, TraktException]"
| "mro c = [c, TraktException]"

text \<open>
  The class attribute \<^verbatim>\<open>http_code\<close> as each class body declares it: \<open>None\<close> where the
  body does not mention it, \<open>Some None\<close> for the base class's \<^verbatim>\<open>http_code = None\<close>.
\<close>

fun http_code_decl :: "cls \<Rightarrow> int option option" where
  "http_code_decl TraktException = Some None"
| "http_code_decl BadResponseException = Some (Some (- 1))"
| "http_code_decl BadRequestException = Some (Some 400)"
| "http_code_decl OAuthException = Some (Some 401)"
| "http_code_decl OAuthRefreshException = None"
| "http_code_decl ForbiddenException = Some (Some 403)"
| "http_code_decl NotFoundException = Some (Some 404)"
| "http_code_decl MethodNotAllowedException = Some (Some 405)"
| "http_code_decl ConflictException = Some (Some 409)"
| "http_code_decl ProcessException = Some (Some 422)"
| "http_code_decl LockedUserAccountException = Some (Some 423)"
| "http_code_decl RateLimitException = Some (Some 429)"
| "http_code_decl AccountLimitExceeded = Some (Some 420)"
| "http_code_decl TraktInternalException = Some (Some 500)"
| "http_code_decl TraktBadGateway = Some (Some 502)"
| "http_code_decl TraktUnavailable = Some (Some 503)"

text \<open>Attribute lookup on a class: the first declaration along the resolution order.\<close>

fun class_attr :: "(cls \<Rightarrow> 'a option) \<Rightarrow> cls list \<Rightarrow> exn + 'a" where
  "class_attr decl [] = Inl AttributeError"
| "class_attr decl (c # cs) = (case decl c of Some v \<Rightarrow> Inr v | None \<Rightarrow> class_attr decl cs)"

definition http_code :: "cls \<Rightarrow> exn + int option" where
  "http_code c = class_attr http_code_decl (mro c)"

text \<open>
  An exception object: its class and the instance attributes the constructors set.
  \<open>details_attr\<close> is the attribute \<^verbatim>\<open>details\<close> of a \<open>BadResponseException\<close>, \<open>data\<close>
  the decoded body of an \<open>OAuthRefreshException\<close>; \<open>None\<close> is an attribute never set.
\<close>

record exc =
  cls_of :: cls
  response :: "Response option"
  details_attr :: "py_value option"
  data :: "py_value option"

definition blank :: "cls \<Rightarrow> exc" where
  "blank c = \<lparr>cls_of = c, response = None, details_attr = None, data = None\<rparr>"

definition isinstance :: "exc \<Rightarrow> cls \<Rightarrow> bool" where
  "isinstance e c \<longleftrightarrow> List.member (mro (cls_of e)) c"

subsection \<open>Constructors\<close>

definition TraktException_init :: "exc \<Rightarrow> Response option \<Rightarrow> exc" where
  "TraktException_init self resp = self\<lparr>response := resp\<rparr>"

definition BadResponseException_init ::
  "exc \<Rightarrow> Response option \<Rightarrow> py_value \<Rightarrow> exc" where
  "BadResponseException_init self resp details =
     (TraktException_init self resp)\<lparr>details_attr := Some details\<rparr>"

text \<open>
  \<^verbatim>\<open>self.data = self.response.json()\<close> runs in the constructor: with no response the
  attribute access fails, and whatever \<^verbatim>\<open>json()\<close> raises leaves the constructor.
\<close>

definition OAuthRefreshException_init :: "exc \<Rightarrow> Response option \<Rightarrow> exn + exc" where
  "OAuthRefreshException_init self resp =
     (let self' = TraktException_init self resp
      in case response self' of
           None \<Rightarrow> Inl AttributeError
         | Some r \<Rightarrow> (case json r of Inl x \<Rightarrow> Inl x | Inr d \<Rightarrow> Inr (self'\<lparr>data := Some d\<rparr>)))"

text \<open>
  \<open>new c resp\<close> is the call \<^verbatim>\<open>c(resp)\<close>: a blank object of the class, then the
  \<^verbatim>\<open>__init__\<close> the class resolves to (\<^verbatim>\<open>details\<close> of a \<open>BadResponseException\<close>
  takes its default \<^verbatim>\<open>None\<close>).
\<close>

definition new :: "cls \<Rightarrow> Response option \<Rightarrow> exn + exc" where
  "new c resp =
     (if c = OAuthRefreshException then OAuthRefreshException_init (blank c) resp
      else if c = BadResponseException then Inr (BadResponseException_init (blank c) resp PyNone)
      else Inr (TraktException_init (blank c) resp))"

subsection \<open>Properties\<close>

text \<open>
  A property is found only on instances of the class that defines it; on the others
  the attribute does not exist. \<^verbatim>\<open>self.response.headers\<close> needs a response.
\<close>

definition error :: "exc \<Rightarrow> exn + py_value" where
  "error e =
     (if \<not> isinstance e OAuthRefreshException then Inl AttributeError
      else case data e of None \<Rightarrow> Inl AttributeError | Some d \<Rightarrow> getitem d ''error'')"

definition error_description :: "exc \<Rightarrow> exn + py_value" where
  "error_description e =
     (if \<not> isinstance e OAuthRefreshException then Inl AttributeError
      else case data e of None \<Rightarrow> Inl AttributeError | Some d \<Rightarrow> getitem d ''error_description'')"

text \<open>\<^verbatim>\<open>int(self.response.headers.get("retry-after", 1))\<close>; \<^verbatim>\<open>int(1)\<close> is \<open>1\<close>.\<close>

definition retry_after :: "nat \<Rightarrow> exc \<Rightarrow> exn + int" where
  "retry_after lim e =
     (if \<not> isinstance e RateLimitException then Inl AttributeError
      else case response e of
             None \<Rightarrow> Inl AttributeError
           | Some r \<Rightarrow>
               (case headers r ''retry-after'' of
                  None \<Rightarrow> Inr 1
                | Some s \<Rightarrow> py_int lim s))"

text \<open>
  \<^verbatim>\<open>loads\<close> is the standard library's JSON decoder, a parameter here: it returns the
  decoded value or raises. Only its \<^verbatim>\<open>JSONDecodeError\<close> is caught. On a
  \<open>BadResponseException\<close> the name \<^verbatim>\<open>details\<close> is the instance attribute.
\<close>

definition details :: "(string \<Rightarrow> exn + py_value) \<Rightarrow> exc \<Rightarrow> exn + py_value" where
  "details loads e =
     (if isinstance e RateLimitException then
        (case response e of
           None \<Rightarrow> Inl AttributeError
         | Some r \<Rightarrow>
             (case loads (case headers r ''x-ratelimit'' of None \<Rightarrow> [] | Some s \<Rightarrow> s) of
                Inr v \<Rightarrow> Inr v
              | Inl JSONDecodeError \<Rightarrow> Inr PyNone
              | Inl x \<Rightarrow> Inl x))
      else if isinstance e BadResponseException then
        (case details_attr e of None \<Rightarrow> Inl AttributeError | Some d \<Rightarrow> Inr d)
      else Inl AttributeError)"

text \<open>A header value is a string; an absent header gives \<^verbatim>\<open>None\<close>.\<close>

definition opt_str :: "string option \<Rightarrow> py_value" where
  "opt_str x = (case x of None \<Rightarrow> PyNone | Some s \<Rightarrow> PyStr s)"

definition account_limit :: "exc \<Rightarrow> exn + py_value" where
  "account_limit e =
     (if \<not> isinstance e AccountLimitExceeded then Inl AttributeError
      else case response e of
             None \<Rightarrow> Inl AttributeError
           | Some r \<Rightarrow> Inr (opt_str (headers r ''x-account-limit'')))"

definition error_message :: "exc \<Rightarrow> exn + py_value" where
  "error_message e =
     (if \<not> isinstance e TraktInternalException then Inl AttributeError
      else case response e of
             None \<Rightarrow> Inl AttributeError
           | Some r \<Rightarrow> Inr (opt_str (headers r ''x-error-message'')))"

section \<open>Module \<open>trakt.core\<close>: the memoized factories\<close>

text \<open>
  Objects live in a heap and are known by their address, so that "the same instance"
  is equality of addresses. A new object takes the next free address.
\<close>

type_synonym ref = nat

record AuthConfig =
  CLIENT_ID :: py_value
  CLIENT_SECRET :: py_value
  OAUTH_EXPIRES_AT :: py_value
  OAUTH_REFRESH :: py_value
  OAUTH_TOKEN :: py_value
  HEADERS :: "string \<rightharpoonup> string"
  REDIRECT_URI :: string

text \<open>
  Modelled from the spec: the classes \<^verbatim>\<open>trakt.config.Config\<close>,
  \<^verbatim>\<open>trakt.api.HttpClient\<close> and \<^verbatim>\<open>trakt.api.TokenAuth\<close> are not among the sources.
  The spec gives the credential store as bound to a file path, the client's state as
  base URL, shared session, default headers and a reference to the authenticator, and
  the authenticator as built from the client, the store and the parameters.
\<close>

record Config =
  path :: string

record HttpClient =
  base_url :: string
  http_session :: ref
  default_headers :: "string \<rightharpoonup> string"
  authenticator :: "ref option"

record TokenAuth =
  auth_client :: ref
  auth_config :: ref
  auth_params :: AuthConfig

datatype obj =
    SessionObj
  | ConfigObj Config
  | HttpClientObj HttpClient
  | TokenAuthObj TokenAuth

text \<open>
  The module's globals that the factories read, the heap, and the caches that the two
  \<^verbatim>\<open>lru_cache\<close> decorators keep (one entry each, for the empty argument tuple).
\<close>

record core =
  BASE_URL :: string
  CLIENT_ID :: py_value
  CLIENT_SECRET :: py_value
  HEADERS :: "string \<rightharpoonup> string"
  CONFIG_PATH :: string
  OAUTH_TOKEN :: py_value
  OAUTH_EXPIRES_AT :: py_value
  OAUTH_REFRESH :: py_value
  session :: ref
  heap :: "obj list"
  config_cache :: "ref option"
  api_cache :: "ref option"


definition alloc :: "obj \<Rightarrow> core \<Rightarrow> ref \<times> core" where
  "alloc x s = (length (heap s), s\<lparr>heap := heap s @ [x]\<rparr>)"

text \<open>
  Modelled from the spec: the constructors and setters of the absent classes.
  \<open>set_headers\<close> installs the given header set as the client's default headers, which
  the spec lists in the client's state, and \<open>set_auth\<close> its authenticator.
\<close>

definition Config_new :: "string \<Rightarrow> core \<Rightarrow> ref \<times> core" where
  "Config_new p s = alloc (ConfigObj \<lparr>path = p\<rparr>) s"

definition HttpClient_new :: "string \<Rightarrow> ref \<Rightarrow> core \<Rightarrow> ref \<times> core" where
  "HttpClient_new url sess s =
     alloc (HttpClientObj
       \<lparr>base_url = url, http_session = sess, default_headers = Map.empty, authenticator = None\<rparr>) s"

definition TokenAuth_new :: "ref \<Rightarrow> ref \<Rightarrow> AuthConfig \<Rightarrow> core \<Rightarrow> ref \<times> core" where
  "TokenAuth_new cl cf ps s =
     alloc (TokenAuthObj \<lparr>auth_client = cl, auth_config = cf, auth_params = ps\<rparr>) s"

definition update_client :: "ref \<Rightarrow> (HttpClient \<Rightarrow> HttpClient) \<Rightarrow> core \<Rightarrow> core" where
  "update_client a f s =
     (if a < length (heap s) then
        (case heap s ! a of
           HttpClientObj c \<Rightarrow> s\<lparr>heap := (heap s)[a := HttpClientObj (f c)]\<rparr>
         | _ \<Rightarrow> s)
      else s)"

definition set_headers :: "ref \<Rightarrow> (string \<rightharpoonup> string) \<Rightarrow> core \<Rightarrow> core" where
  "set_headers a h s = update_client a (\<lambda>c. c\<lparr>default_headers := h\<rparr>) s"

definition set_auth :: "ref \<Rightarrow> ref \<Rightarrow> core \<Rightarrow> core" where
  "set_auth a t s = update_client a (\<lambda>c. c\<lparr>authenticator := Some t\<rparr>) s"




text \<open>
  \<^verbatim>\<open>@lru_cache(maxsize=None)\<close> on a function of no argument: a hit returns the cached
  result and runs nothing; a miss runs the function and caches what it returned.
  \<^verbatim>\<open>cache_clear()\<close> empties the cache.
\<close>

definition lru_cache ::
  "(core \<Rightarrow> ref option) \<Rightarrow> (ref option \<Rightarrow> core \<Rightarrow> core) \<Rightarrow> (core \<Rightarrow> ref \<times> core) \<Rightarrow> core \<Rightarrow> ref \<times> core"
where
  "lru_cache get put f s =
     (case get s of
        Some r \<Rightarrow> (r, s)
      | None \<Rightarrow> (case f s of (r, s') \<Rightarrow> (r, put (Some r) s')))"

definition config_body :: "core \<Rightarrow> ref \<times> core" where
  "config_body s = Config_new (CONFIG_PATH s) s"

definition config :: "core \<Rightarrow> ref \<times> core" where
  "config = lru_cache config_cache (\<lambda>c s. s\<lparr>config_cache := c\<rparr>) config_body"


definition api_body :: "core \<Rightarrow> ref \<times> core" where
  "api_body s =
     (let params =
            \<lparr>AuthConfig.CLIENT_ID = CLIENT_ID s,
             AuthConfig.CLIENT_SECRET = CLIENT_SECRET s,
             AuthConfig.OAUTH_EXPIRES_AT = OAUTH_EXPIRES_AT s,
             AuthConfig.OAUTH_REFRESH = OAUTH_REFRESH s,
             AuthConfig.OAUTH_TOKEN = OAUTH_TOKEN s,
             AuthConfig.HEADERS = HEADERS s,
             AuthConfig.REDIRECT_URI = ''urn:ietf:wg:oauth:2.0:oob''\<rparr>
      in case HttpClient_new (BASE_URL s) (session s) s of
           (client, s1) \<Rightarrow>
             (let s2 = set_headers client (AuthConfig.HEADERS params) s1
              in case config s2 of
                   (cfg, s3) \<Rightarrow>
                     (case TokenAuth_new client cfg params s3 of
                        (auth, s4) \<Rightarrow> (client, set_auth client auth s4))))"




section \<open>Status codes\<close>

text \<open>
  C3: each class of the status-code table carries the code of its row as
  \<^verbatim>\<open>http_code\<close>: 400, 401, 403, 404, 405, 409, 420, 422, 423, 429, 500, 502, 503.
\<close>

theorem http_code_table:
  "http_code BadRequestException = Inr (Some 400)
   \<and> http_code OAuthException = Inr (Some 401)
   \<and> http_code ForbiddenException = Inr (Some 403)
   \<and> http_code NotFoundException = Inr (Some 404)
   \<and> http_code MethodNotAllowedException = Inr (Some 405)
   \<and> http_code ConflictException = Inr (Some 409)
   \<and> http_code AccountLimitExceeded = Inr (Some 420)
   \<and> http_code ProcessException = Inr (Some 422)
   \<and> http_code LockedUserAccountException = Inr (Some 423)
   \<and> http_code RateLimitException = Inr (Some 429)
   \<and> http_code TraktInternalException = Inr (Some 500)
   \<and> http_code TraktBadGateway = Inr (Some 502)
   \<and> http_code TraktUnavailable = Inr (Some 503)"
  by (simp add: http_code_def)

section \<open>Rate limits: \<open>retry_after\<close> and \<open>details\<close>\<close>

subsection \<open>The scanner of \<open>int\<close> accepts exactly the grammar\<close>

lemma digit_not_space: "digit_val c = Some v \<Longrightarrow> \<not> is_space c"
  by (auto simp: digit_val_def is_space_def Let_def split: if_splits)

lemma digit_not_sign:
  "digit_val c = Some v \<Longrightarrow> c \<noteq> CHR ''-'' \<and> c \<noteq> CHR ''+'' \<and> c \<noteq> CHR ''_''"
  by (auto simp: digit_val_def Let_def split: if_splits)

lemma strip_digits:
  assumes "\<forall>c\<in>set s. digit_val c \<noteq> None"
  shows "strip s = s"
proof -
  have ns: "\<forall>c\<in>set s. \<not> is_space c" using assms digit_not_space by blast
  have "dropWhile is_space s = s" using ns by (cases s) auto
  moreover have "\<forall>c\<in>set (rev s). \<not> is_space c" using ns by simp
  then have "dropWhile is_space (rev s) = rev s" by (cases "rev s") auto
  ultimately show ?thesis by (simp add: strip_def)
qed

lemma underscore_not_dec: "\<not> is_dec (CHR ''_'')"
  by (simp add: is_dec_def digit_val_def)

lemma dec_val: "is_dec c \<Longrightarrow> digit_val c = Some (of_char c - 48)"
  by (auto simp: is_dec_def digit_val_def Let_def split: if_splits)

lemma scan_spec:
  "scan acc n cs =
     (if tail_ok cs
      then Some (foldl (\<lambda>a c. 10 * a + (of_char c - 48)) acc (filter is_dec cs),
                 n + length (filter is_dec cs))
      else None)"
proof (induction acc n cs rule: scan.induct)
  case (1 acc n)
  show ?case by (simp add: tail_ok_def)
next
  case (2 acc n c cs)
  show ?case
  proof (cases "c = CHR ''_''")
    case True
    note u = True
    show ?thesis
    proof (cases cs)
      case Nil
      then show ?thesis using u underscore_not_dec by (simp add: tail_ok_def)
    next
      case (Cons d ds)
      show ?thesis
      proof (cases "is_dec d")
        case True
        then have dv: "digit_val d = Some (of_char d - 48)" by (rule dec_val)
        have dn: "d \<noteq> CHR ''_''" using True underscore_not_dec by auto
        have t: "tail_ok (c # d # ds) = tail_ok ds"
          using True dn u underscore_not_dec
          by (cases ds) (auto simp: tail_ok_def)
        have "scan acc n (c # cs) = scan (10 * acc + (of_char d - 48)) (Suc n) ds"
          using u Cons dv by simp
        also have "\<dots> = (if tail_ok ds
            then Some (foldl (\<lambda>a c. 10 * a + (of_char c - 48)) (10 * acc + (of_char d - 48)) (filter is_dec ds),
                 Suc n + length (filter is_dec ds))
            else None)"
          using "2.IH"(1)[OF u Cons dv] .
        finally show ?thesis using t True u underscore_not_dec Cons by simp
      next
        case False
        then have dv: "digit_val d = None" by (simp add: is_dec_def)
        have "\<not> tail_ok (c # d # ds)"
          using False u by (auto simp: tail_ok_def)
        then show ?thesis using u Cons dv by simp
      qed
    qed
  next
    case False
    note nu = False
    show ?thesis
    proof (cases "is_dec c")
      case True
      then have dv: "digit_val c = Some (of_char c - 48)" by (rule dec_val)
      have t: "tail_ok (c # cs) = tail_ok cs"
        using True nu by (cases cs) (auto simp: tail_ok_def)
      have "scan acc n (c # cs) = scan (10 * acc + (of_char c - 48)) (Suc n) cs"
        using nu dv by simp
      also have "\<dots> = (if tail_ok cs
            then Some (foldl (\<lambda>a c. 10 * a + (of_char c - 48)) (10 * acc + (of_char c - 48)) (filter is_dec cs),
                 Suc n + length (filter is_dec cs))
            else None)"
        using "2.IH"(2)[OF nu dv] .
      finally show ?thesis using t True by simp
    next
      case False
      then have dv: "digit_val c = None" by (simp add: is_dec_def)
      have "\<not> tail_ok (c # cs)" using False nu by (simp add: tail_ok_def)
      then show ?thesis using nu dv by simp
    qed
  qed
qed

lemma int_literal_spec:
  "int_literal b =
     (if digit_groups b then Some (decimal_value (filter is_dec b), length (filter is_dec b))
      else None)"
proof (cases b)
  case Nil
  then show ?thesis by (simp add: int_literal_def digit_groups_def)
next
  case (Cons c cs)
  show ?thesis
  proof (cases "is_dec c")
    case True
    then have dv: "digit_val c = Some (of_char c - 48)" by (rule dec_val)
    have cn: "c \<noteq> CHR ''_''" using True underscore_not_dec by auto
    have g: "digit_groups (c # cs) = tail_ok cs"
      using True cn by (cases cs) (auto simp: digit_groups_def tail_ok_def)
    show ?thesis
      using Cons dv g True
      by (simp add: int_literal_def scan_spec decimal_value_def)
  next
    case False
    then have "digit_val c = None" by (simp add: is_dec_def)
    moreover have "\<not> digit_groups (c # cs)" using False by (simp add: digit_groups_def)
    ultimately show ?thesis using Cons by (simp add: int_literal_def)
  qed
qed

lemma py_int_spec:
  "py_int lim s =
     (if decimal_integer_string s \<and> within_limit lim s then Inr (integer_value s)
      else Inl ValueError)"
  by (simp add: py_int_def Let_def int_literal_spec decimal_integer_string_def within_limit_def
      integer_value_def unsigned_def[symmetric] negative_def[symmetric] digits_of_def)

lemma plain_digits_unsigned:
  assumes "s \<noteq> []" and "\<forall>c\<in>set s. is_dec c"
  shows "unsigned s = s \<and> \<not> negative s"
proof -
  have d: "\<forall>c\<in>set s. digit_val c \<noteq> None" using assms(2) by (simp add: is_dec_def)
  have st: "strip s = s" by (rule strip_digits[OF d])
  obtain c cs where s: "s = c # cs" using assms(1) by (cases s) auto
  then obtain v where "digit_val c = Some v" using d by auto
  moreover have "strip (c # cs) = c # cs" using st s by simp
  ultimately show ?thesis using digit_not_sign[of c] by (simp add: unsigned_def negative_def s)
qed

lemma no_adjacent_dec: "\<forall>c\<in>set s. is_dec c \<Longrightarrow> no_adjacent_underscores s"
proof (induction s rule: no_adjacent_underscores.induct)
  case (1 a b cs)
  then show ?case using underscore_not_dec by auto
qed simp_all

lemma plain_digits_integer:
  assumes "s \<noteq> []" and "\<forall>c\<in>set s. is_dec c"
  shows "decimal_integer_string s \<and> integer_value s = int (decimal_value s)
         \<and> length (digits_of s) = length s"
proof -
  have u: "unsigned s = s" "\<not> negative s" using plain_digits_unsigned[OF assms] by simp_all
  have f: "filter is_dec s = s" using assms(2) by (simp add: filter_id_conv)
  have g: "digit_groups s"
    using assms no_adjacent_dec[OF assms(2)] by (simp add: digit_groups_def list_all_iff)
  show ?thesis using u f g by (simp add: decimal_integer_string_def integer_value_def digits_of_def)
qed

subsection \<open>\<open>retry_after\<close>\<close>

text \<open>
  C1, as stated, fails: a \<^verbatim>\<open>retry-after\<close> header may carry an HTTP date instead of a
  number of seconds. The exception is built as usual, and reading \<^verbatim>\<open>retry_after\<close> raises
  \<^verbatim>\<open>ValueError\<close> instead of returning 1.
\<close>

theorem retry_after_http_date_raises:
  "new RateLimitException
     (Some \<lparr>status_code = 429,
            headers = [''retry-after'' \<mapsto> ''Wed, 21 Oct 2015 07:28:00 GMT''],
            json = Inl JSONDecodeError\<rparr>)
   = Inr \<lparr>cls_of = RateLimitException,
          response = Some \<lparr>status_code = 429,
            headers = [''retry-after'' \<mapsto> ''Wed, 21 Oct 2015 07:28:00 GMT''],
            json = Inl JSONDecodeError\<rparr>,
          details_attr = None, data = None\<rparr>
   \<and> retry_after 4300
        \<lparr>cls_of = RateLimitException,
          response = Some \<lparr>status_code = 429,
            headers = [''retry-after'' \<mapsto> ''Wed, 21 Oct 2015 07:28:00 GMT''],
            json = Inl JSONDecodeError\<rparr>,
          details_attr = None, data = None\<rparr>
      = Inl ValueError"
  by (simp add: new_def TraktException_init_def blank_def retry_after_def isinstance_def
      py_int_def strip_def is_space_def int_literal_def digit_val_def)

text \<open>
  C1, amended: on a rate-limit error that carries a response, \<^verbatim>\<open>retry_after\<close> is 1 when
  the \<^verbatim>\<open>retry-after\<close> header is absent, and the header's integer value when the header
  holds a decimal integer string whose digits the interpreter's limit lets through; for
  every other header value it raises \<^verbatim>\<open>ValueError\<close> and does not return 1. A non-empty
  string of decimal digits is such a string, and its value is the number it spells.
\<close>

theorem retry_after_spec:
  assumes "isinstance e RateLimitException" and "response e = Some r"
  shows "(headers r ''retry-after'' = None \<longrightarrow> retry_after lim e = Inr 1)
    \<and> (\<forall>s. headers r ''retry-after'' = Some s \<and> decimal_integer_string s \<and> within_limit lim s
          \<longrightarrow> retry_after lim e = Inr (integer_value s))
    \<and> (\<forall>s. headers r ''retry-after'' = Some s \<and> \<not> (decimal_integer_string s \<and> within_limit lim s)
          \<longrightarrow> retry_after lim e = Inl ValueError)
    \<and> (\<forall>s. s \<noteq> [] \<and> (\<forall>c\<in>set s. is_dec c)
          \<longrightarrow> decimal_integer_string s \<and> integer_value s = int (decimal_value s)
              \<and> length (digits_of s) = length s)"
proof -
  have absent: "headers r ''retry-after'' = None \<longrightarrow> retry_after lim e = Inr 1"
    using assms by (simp add: retry_after_def)
  have accepted: "\<forall>s. headers r ''retry-after'' = Some s \<and> decimal_integer_string s
        \<and> within_limit lim s \<longrightarrow> retry_after lim e = Inr (integer_value s)"
    using assms by (simp add: retry_after_def py_int_spec)
  have refused: "\<forall>s. headers r ''retry-after'' = Some s
        \<and> \<not> (decimal_integer_string s \<and> within_limit lim s)
        \<longrightarrow> retry_after lim e = Inl ValueError"
    using assms by (auto simp add: retry_after_def py_int_spec)
  have plain: "\<forall>s. s \<noteq> [] \<and> (\<forall>c\<in>set s. is_dec c)
          \<longrightarrow> decimal_integer_string s \<and> integer_value s = int (decimal_value s)
              \<and> length (digits_of s) = length s"
    using plain_digits_integer by blast
  from absent accepted refused plain show ?thesis by blast
qed

theorem retry_after_spec_witness:
  "retry_after 4300
     \<lparr>cls_of = AccountLimitExceeded,
      response = Some \<lparr>status_code = 420, headers = [''retry-after'' \<mapsto> ''30''],
                        json = Inl JSONDecodeError\<rparr>,
      details_attr = None, data = None\<rparr>
   = Inr 30
   \<and> retry_after 4300
     \<lparr>cls_of = RateLimitException,
      response = Some \<lparr>status_code = 429, headers = Map.empty, json = Inl JSONDecodeError\<rparr>,
      details_attr = None, data = None\<rparr>
   = Inr 1
   \<and> retry_after 4300
     \<lparr>cls_of = RateLimitException,
      response = Some \<lparr>status_code = 429,
                        headers = [''retry-after'' \<mapsto> ''Wed, 21 Oct 2015 07:28:00 GMT''],
                        json = Inl JSONDecodeError\<rparr>,
      details_attr = None, data = None\<rparr>
   = Inl ValueError"
proof -
  let ?r1 = "\<lparr>status_code = 420, headers = [''retry-after'' \<mapsto> ''30''],
              json = Inl JSONDecodeError\<rparr>"
  let ?r2 = "\<lparr>status_code = 429, headers = Map.empty, json = Inl JSONDecodeError\<rparr>"
  let ?r3 = "\<lparr>status_code = 429,
              headers = [''retry-after'' \<mapsto> ''Wed, 21 Oct 2015 07:28:00 GMT''],
              json = Inl JSONDecodeError\<rparr>"
  let ?e1 = "\<lparr>cls_of = AccountLimitExceeded, response = Some ?r1, details_attr = None, data = None\<rparr>"
  let ?e2 = "\<lparr>cls_of = RateLimitException, response = Some ?r2, details_attr = None, data = None\<rparr>"
  let ?e3 = "\<lparr>cls_of = RateLimitException, response = Some ?r3, details_attr = None, data = None\<rparr>"
  have i1: "isinstance ?e1 RateLimitException" by (simp add: isinstance_def)
  have i2: "isinstance ?e2 RateLimitException" by (simp add: isinstance_def)
  have i3: "isinstance ?e3 RateLimitException" by (simp add: isinstance_def)
  have d30: "decimal_integer_string ''30'' \<and> within_limit 4300 ''30'' \<and> integer_value ''30'' = 30"
    by (simp add: decimal_integer_string_def within_limit_def integer_value_def digits_of_def
        unsigned_def negative_def strip_def is_space_def digit_groups_def is_dec_def
        digit_val_def decimal_value_def)
  have date: "\<not> decimal_integer_string ''Wed, 21 Oct 2015 07:28:00 GMT''"
    by (simp add: decimal_integer_string_def unsigned_def strip_def is_space_def
        digit_groups_def is_dec_def digit_val_def)
  have "retry_after 4300 ?e1 = Inr (integer_value ''30'')"
    using retry_after_spec[OF i1, of ?r1 4300] d30 by simp
  moreover have "retry_after 4300 ?e2 = Inr 1"
    using retry_after_spec[OF i2, of ?r2 4300] by simp
  moreover have "retry_after 4300 ?e3 = Inl ValueError"
    using retry_after_spec[OF i3, of ?r3 4300] date by simp
  ultimately show ?thesis using d30 by simp
qed

subsection \<open>The decoder on the empty document and on integers\<close>





subsection \<open>\<open>details\<close>\<close>




section \<open>The refresh error\<close>

text \<open>
  C4: for a response whose body decodes as JSON, the refresh error is built, keeps the
  decoded body, and its \<^verbatim>\<open>error\<close> and \<^verbatim>\<open>error_description\<close> are the body's members
  of these names: the member's value where the body is an object that has it.
\<close>

theorem oauth_refresh_fields:
  assumes "json r = Inr d"
  shows "\<exists>e. new OAuthRefreshException (Some r) = Inr e
           \<and> data e = Some d
           \<and> error e = getitem d ''error''
           \<and> error_description e = getitem d ''error_description''
           \<and> (\<forall>kvs v. d = PyDict kvs \<and> map_of kvs ''error'' = Some v \<longrightarrow> error e = Inr v)
           \<and> (\<forall>kvs v. d = PyDict kvs \<and> map_of kvs ''error_description'' = Some v
                 \<longrightarrow> error_description e = Inr v)"
  using assms
  by (simp add: new_def OAuthRefreshException_init_def TraktException_init_def blank_def
      error_def error_description_def isinstance_def)

theorem oauth_refresh_fields_witness:
  "\<exists>e. new OAuthRefreshException
          (Some \<lparr>status_code = 401, headers = Map.empty,
                 json = Inr (PyDict [(''error'', PyStr ''invalid_grant''),
                                     (''error_description'', PyStr ''The refresh token is invalid'')])\<rparr>)
        = Inr e
      \<and> error e = Inr (PyStr ''invalid_grant'')
      \<and> error_description e = Inr (PyStr ''The refresh token is invalid'')"
proof -
  let ?d = "PyDict [(''error'', PyStr ''invalid_grant''),
                    (''error_description'', PyStr ''The refresh token is invalid'')]"
  let ?r = "\<lparr>status_code = 401, headers = Map.empty, json = Inr ?d\<rparr>"
  have j: "json ?r = Inr ?d" by simp
  from oauth_refresh_fields[OF j] obtain e where
    "new OAuthRefreshException (Some ?r) = Inr e"
    "error e = getitem ?d ''error''"
    "error_description e = getitem ?d ''error_description''"
    by blast
  then show ?thesis by simp
qed

section \<open>The response kept on the error\<close>

text \<open>
  C5: whatever the class and the response, an error built with a response holds exactly
  that response. Every class but the refresh error is built from any response; the
  refresh error is built whenever the body decodes. Both base constructors store the
  response they are given.
\<close>

theorem response_stored:
  "(\<forall>e. new c resp = Inr e \<longrightarrow> response e = resp \<and> cls_of e = c)
   \<and> (c \<noteq> OAuthRefreshException \<longrightarrow> (\<exists>e. new c resp = Inr e))
   \<and> (\<forall>r d. resp = Some r \<and> json r = Inr d \<longrightarrow> (\<exists>e. new c resp = Inr e))
   \<and> response (TraktException_init self resp) = resp
   \<and> response (BadResponseException_init self resp d) = resp"
  by (auto simp add: new_def OAuthRefreshException_init_def BadResponseException_init_def
      TraktException_init_def blank_def split: option.splits sum.splits)

theorem response_stored_witness:
  "\<exists>e. new TraktInternalException
          (Some \<lparr>status_code = 500, headers = [''x-error-message'' \<mapsto> ''boom''],
                 json = Inl JSONDecodeError\<rparr>)
        = Inr e
      \<and> response e = Some \<lparr>status_code = 500, headers = [''x-error-message'' \<mapsto> ''boom''],
                            json = Inl JSONDecodeError\<rparr>"
proof -
  let ?r = "\<lparr>status_code = 500, headers = [''x-error-message'' \<mapsto> ''boom''],
             json = Inl JSONDecodeError\<rparr>"
  have ne: "TraktInternalException \<noteq> OAuthRefreshException" by simp
  from response_stored[of TraktInternalException "Some ?r"] ne
  obtain e where e: "new TraktInternalException (Some ?r) = Inr e" by blast
  with response_stored[of TraktInternalException "Some ?r"]
  have "response e = Some ?r" by blast
  with e show ?thesis by blast
qed

section \<open>Header fields of the account-limit and server errors\<close>

text \<open>
  C6: on an \<open>AccountLimitExceeded\<close> error (code 420) that carries a response,
  \<^verbatim>\<open>account_limit\<close> is the value of the \<^verbatim>\<open>x-account-limit\<close> header, and \<^verbatim>\<open>None\<close>
  when the header is absent.
\<close>

theorem account_limit_spec:
  assumes "isinstance e AccountLimitExceeded" and "response e = Some r"
  shows "(headers r ''x-account-limit'' = None \<longrightarrow> account_limit e = Inr PyNone)
    \<and> (\<forall>s. headers r ''x-account-limit'' = Some s \<longrightarrow> account_limit e = Inr (PyStr s))
    \<and> http_code (cls_of e) = Inr (Some 420)"
proof -
  have c: "cls_of e = AccountLimitExceeded"
    using assms(1) by (cases "cls_of e") (simp_all add: isinstance_def)
  show ?thesis using assms by (simp add: account_limit_def opt_str_def c http_code_def)
qed

theorem account_limit_spec_witness:
  "account_limit
     \<lparr>cls_of = AccountLimitExceeded,
      response = Some \<lparr>status_code = 420, headers = [''x-account-limit'' \<mapsto> ''100''],
                        json = Inl JSONDecodeError\<rparr>,
      details_attr = None, data = None\<rparr>
   = Inr (PyStr ''100'')
   \<and> account_limit
     \<lparr>cls_of = AccountLimitExceeded,
      response = Some \<lparr>status_code = 420, headers = Map.empty, json = Inl JSONDecodeError\<rparr>,
      details_attr = None, data = None\<rparr>
   = Inr PyNone"
proof -
  let ?r1 = "\<lparr>status_code = 420, headers = [''x-account-limit'' \<mapsto> ''100''],
              json = Inl JSONDecodeError\<rparr>"
  let ?r2 = "\<lparr>status_code = 420, headers = Map.empty, json = Inl JSONDecodeError\<rparr>"
  let ?e1 = "\<lparr>cls_of = AccountLimitExceeded, response = Some ?r1, details_attr = None, data = None\<rparr>"
  let ?e2 = "\<lparr>cls_of = AccountLimitExceeded, response = Some ?r2, details_attr = None, data = None\<rparr>"
  have i1: "isinstance ?e1 AccountLimitExceeded" by (simp add: isinstance_def)
  have i2: "isinstance ?e2 AccountLimitExceeded" by (simp add: isinstance_def)
  have "account_limit ?e1 = Inr (PyStr ''100'')"
    using account_limit_spec[OF i1, of ?r1] by simp
  moreover have "account_limit ?e2 = Inr PyNone"
    using account_limit_spec[OF i2, of ?r2] by simp
  ultimately show ?thesis by simp
qed

text \<open>
  C7: on a \<open>TraktInternalException\<close> (code 500) that carries a response,
  \<^verbatim>\<open>error_message\<close> is the value of the \<^verbatim>\<open>x-error-message\<close> header, and
  \<^verbatim>\<open>None\<close> when the header is absent.
\<close>

theorem error_message_spec:
  assumes "isinstance e TraktInternalException" and "response e = Some r"
  shows "(headers r ''x-error-message'' = None \<longrightarrow> error_message e = Inr PyNone)
    \<and> (\<forall>s. headers r ''x-error-message'' = Some s \<longrightarrow> error_message e = Inr (PyStr s))
    \<and> http_code (cls_of e) = Inr (Some 500)"
proof -
  have c: "cls_of e = TraktInternalException"
    using assms(1) by (cases "cls_of e") (simp_all add: isinstance_def)
  show ?thesis using assms by (simp add: error_message_def opt_str_def c http_code_def)
qed

theorem error_message_spec_witness:
  "error_message
     \<lparr>cls_of = TraktInternalException,
      response = Some \<lparr>status_code = 500, headers = [''x-error-message'' \<mapsto> ''boom''],
                        json = Inl JSONDecodeError\<rparr>,
      details_attr = None, data = None\<rparr>
   = Inr (PyStr ''boom'')
   \<and> error_message
     \<lparr>cls_of = TraktInternalException,
      response = Some \<lparr>status_code = 500, headers = Map.empty, json = Inl JSONDecodeError\<rparr>,
      details_attr = None, data = None\<rparr>
   = Inr PyNone"
proof -
  let ?r1 = "\<lparr>status_code = 500, headers = [''x-error-message'' \<mapsto> ''boom''],
              json = Inl JSONDecodeError\<rparr>"
  let ?r2 = "\<lparr>status_code = 500, headers = Map.empty, json = Inl JSONDecodeError\<rparr>"
  let ?e1 = "\<lparr>cls_of = TraktInternalException, response = Some ?r1, details_attr = None, data = None\<rparr>"
  let ?e2 = "\<lparr>cls_of = TraktInternalException, response = Some ?r2, details_attr = None, data = None\<rparr>"
  have i1: "isinstance ?e1 TraktInternalException" by (simp add: isinstance_def)
  have i2: "isinstance ?e2 TraktInternalException" by (simp add: isinstance_def)
  have "error_message ?e1 = Inr (PyStr ''boom'')"
    using error_message_spec[OF i1, of ?r1] by simp
  moreover have "error_message ?e2 = Inr PyNone"
    using error_message_spec[OF i2, of ?r2] by simp
  ultimately show ?thesis by simp
qed

section \<open>The refresh error decodes the body when it is built\<close>

text \<open>
  C10: when \<^verbatim>\<open>json()\<close> of the response raises, building the refresh error raises the
  same exception, so no error object exists; an object that was built holds the decoded
  body, and \<^verbatim>\<open>error\<close> and \<^verbatim>\<open>error_description\<close> read that stored value only: they do
  not depend on the response any more.
\<close>

theorem oauth_refresh_eager:
  "(json r = Inl x \<longrightarrow> new OAuthRefreshException (Some r) = Inl x)
   \<and> (\<forall>e. new OAuthRefreshException (Some r) = Inr e \<longrightarrow> (\<exists>d. json r = Inr d \<and> data e = Some d))
   \<and> error (e'\<lparr>response := resp'\<rparr>) = error e'
   \<and> error_description (e'\<lparr>response := resp'\<rparr>) = error_description e'"
  by (auto simp add: new_def OAuthRefreshException_init_def TraktException_init_def blank_def
      error_def error_description_def isinstance_def split: sum.splits)

theorem oauth_refresh_eager_witness:
  "new OAuthRefreshException
     (Some \<lparr>status_code = 401, headers = Map.empty, json = Inl JSONDecodeError\<rparr>)
   = Inl JSONDecodeError"
proof -
  let ?r = "\<lparr>status_code = 401, headers = Map.empty, json = Inl JSONDecodeError\<rparr>"
  have "json ?r = Inl JSONDecodeError" by simp
  with oauth_refresh_eager[of ?r JSONDecodeError] show ?thesis by blast
qed

section \<open>The memoized factories\<close>

subsection \<open>What a call does, by the state of the caches\<close>

lemma lru_hit: "get s = Some r \<Longrightarrow> lru_cache get put f s = (r, s)"
  by (simp add: lru_cache_def)

lemma config_hit: "config_cache s = Some c \<Longrightarrow> config s = (c, s)"
  by (simp add: config_def lru_hit)

lemma config_miss:
  "config_cache s = None \<Longrightarrow>
   config s = (length (heap s),
     s\<lparr>heap := heap s @ [ConfigObj \<lparr>path = CONFIG_PATH s\<rparr>], config_cache := Some (length (heap s))\<rparr>)"
  by (simp add: config_def lru_cache_def config_body_def Config_new_def alloc_def)



lemma api_body_miss_config:
  assumes "config_cache s = None"
  shows "api_body s =
    (length (heap s),
     s\<lparr>heap := heap s @
         [HttpClientObj \<lparr>base_url = BASE_URL s, http_session = session s,
            default_headers = HEADERS s, authenticator = Some (Suc (Suc (length (heap s))))\<rparr>,
          ConfigObj \<lparr>path = CONFIG_PATH s\<rparr>,
          TokenAuthObj \<lparr>auth_client = length (heap s), auth_config = Suc (length (heap s)),
            auth_params =
              \<lparr>AuthConfig.CLIENT_ID = CLIENT_ID s,
               AuthConfig.CLIENT_SECRET = CLIENT_SECRET s,
               AuthConfig.OAUTH_EXPIRES_AT = OAUTH_EXPIRES_AT s,
               AuthConfig.OAUTH_REFRESH = OAUTH_REFRESH s,
               AuthConfig.OAUTH_TOKEN = OAUTH_TOKEN s,
               AuthConfig.HEADERS = HEADERS s,
               AuthConfig.REDIRECT_URI = ''urn:ietf:wg:oauth:2.0:oob''\<rparr>\<rparr>],
       config_cache := Some (Suc (length (heap s)))\<rparr>)"
  using assms
  by (simp add: api_body_def HttpClient_new_def alloc_def set_headers_def update_client_def
      config_miss TokenAuth_new_def set_auth_def nth_append Let_def)

lemma api_body_hit_config:
  assumes "config_cache s = Some c"
  shows "api_body s =
    (length (heap s),
     s\<lparr>heap := heap s @
         [HttpClientObj \<lparr>base_url = BASE_URL s, http_session = session s,
            default_headers = HEADERS s, authenticator = Some (Suc (length (heap s)))\<rparr>,
          TokenAuthObj \<lparr>auth_client = length (heap s), auth_config = c,
            auth_params =
              \<lparr>AuthConfig.CLIENT_ID = CLIENT_ID s,
               AuthConfig.CLIENT_SECRET = CLIENT_SECRET s,
               AuthConfig.OAUTH_EXPIRES_AT = OAUTH_EXPIRES_AT s,
               AuthConfig.OAUTH_REFRESH = OAUTH_REFRESH s,
               AuthConfig.OAUTH_TOKEN = OAUTH_TOKEN s,
               AuthConfig.HEADERS = HEADERS s,
               AuthConfig.REDIRECT_URI = ''urn:ietf:wg:oauth:2.0:oob''\<rparr>\<rparr>]\<rparr>)"
  using assms
  by (simp add: api_body_def HttpClient_new_def alloc_def set_headers_def update_client_def
      config_hit TokenAuth_new_def set_auth_def nth_append Let_def)




lemma api_body_api_cache: "api_cache (snd (api_body s)) = api_cache s"
  by (cases "config_cache s") (simp_all add: api_body_miss_config api_body_hit_config)











subsection \<open>One instance per factory\<close>



subsection \<open>The default headers of the client, and the headers of a request\<close>






end
